theory Spec2Isabelle
  imports Main
begin

section \<open>Data model\<close>

text \<open>
  The two adapters of the repository are embedded here:
  \<^item> \<^verbatim>\<open>packages/node/src/lib/node.ts\<close> (class \<^verbatim>\<open>SentryNode\<close>): the capture bridge over
    the Raven engine, with its two intercepted hooks and the single capture slot;
  \<^item> \<^verbatim>\<open>packages/browser/src/backend.ts\<close> (class \<^verbatim>\<open>BrowserBackend\<close>): the event normaliser
    (\<^verbatim>\<open>eventFromException\<close>, \<^verbatim>\<open>eventFromMessage\<close>) and the transport dispatch
    (\<^verbatim>\<open>sendEvent\<close>).

  Mutable fields become a record that every operation takes and returns, a thrown
  exception or a rejected promise becomes a value, and the calls a function makes into
  its collaborators (the surrounding Client, the Raven engine, a transport) are logged
  in the state, in call order, so that "forwarded", "not forwarded" and "no transport
  constructed" are statements about those logs.
\<close>

subsection \<open>JavaScript values\<close>

text \<open>
  The class of an object, as \<^verbatim>\<open>Object.prototype.toString\<close> reports it. The shape
  predicates of \<^verbatim>\<open>@sentry/utils/is\<close> distinguish exactly these.
\<close>

datatype jsclass = ErrorEventC | DOMErrorC | DOMExceptionC | ErrorC | ObjectC | OtherC

text \<open>
  A value of type \<^verbatim>\<open>any\<close>: the primitives and objects with their properties in
  insertion order. This program does two things with a number: it tests its truthiness
  and it coerces it to a string. A number is therefore known by these two answers:
  \<open>JNum t r\<close> is a number whose truthiness is \<open>t\<close> (false for \<^verbatim>\<open>0\<close>, \<^verbatim>\<open>-0\<close> and
  \<^verbatim>\<open>NaN\<close>, true otherwise) and which \<^verbatim>\<open>Number.prototype.toString\<close> renders as \<open>r\<close>. So
  \<^verbatim>\<open>42\<close> is \<open>JNum True ''42''\<close>, \<^verbatim>\<open>1e21\<close> is \<open>JNum True ''1e+21''\<close> and \<^verbatim>\<open>NaN\<close> is
  \<open>JNum False ''NaN''\<close>. Symbols are left out.
\<close>

datatype jsval =
  JUndefined
| JNull
| JBool bool
| JNum bool string
| JStr string
| JObj jsclass "(string \<times> jsval) list"

text \<open>Property read \<^verbatim>\<open>v.k\<close>: \<^verbatim>\<open>undefined\<close> when the property is absent.\<close>

fun get_prop :: "jsval \<Rightarrow> string \<Rightarrow> jsval" where
  "get_prop (JObj c ps) k = (case map_of ps k of None \<Rightarrow> JUndefined | Some v \<Rightarrow> v)"
| "get_prop v k = JUndefined"

text \<open>The truthiness test of \<^verbatim>\<open>if (v)\<close>, \<^verbatim>\<open>v && w\<close>, \<^verbatim>\<open>v || w\<close> and \<^verbatim>\<open>v ? a : b\<close>.\<close>

fun truthy :: "jsval \<Rightarrow> bool" where
  "truthy JUndefined = False"
| "truthy JNull = False"
| "truthy (JBool b) = b"
| "truthy (JNum t r) = t"
| "truthy (JStr s) = (s \<noteq> [])"
| "truthy (JObj c ps) = True"

subsection \<open>Errors and promises\<close>

text \<open>
  \<^verbatim>\<open>SentryError\<close> and \<^verbatim>\<open>Error\<close> carry their message; \<^verbatim>\<open>Thrown\<close> is any other value
  that a collaborator throws or hands to an error-first callback.
\<close>

datatype error = SentryError string | Error string | Thrown jsval

datatype 'a promise = Resolved 'a | Rejected error | Pending

subsection \<open>Events and breadcrumbs\<close>

record tk_frame =
  tk_url :: string
  tk_func :: string
  tk_line :: nat
  tk_column :: nat

record tk_stacktrace =
  tk_name :: "string option"
  tk_message :: string
  tk_stack :: "tk_frame list"

record stackframe =
  sf_filename :: string
  sf_function :: string
  sf_lineno :: nat
  sf_colno :: nat

record mechanism =
  handled :: bool
  mech_type :: string

text \<open>
  Modelled from the spec: the exception descriptor of an event has a type name, a
  value, a list of stack frames and a mechanism tag. An absent frame list is the empty
  list; the object \<^verbatim>\<open>{}\<close> is \<open>empty_descr\<close>.
\<close>

record exception_descr =
  exc_type :: "string option"
  exc_value :: "string option"
  exc_frames :: "stackframe list"
  exc_mechanism :: "mechanism option"

definition empty_descr :: exception_descr where
  "empty_descr =
     \<lparr>exc_type = None, exc_value = None, exc_frames = [], exc_mechanism = None\<rparr>"

text \<open>
  Modelled from the spec: \<^verbatim>\<open>SentryEvent\<close>, a type of \<^verbatim>\<open>@sentry/types\<close>, has an optional
  message, an optional exception descriptor, an optional fingerprint and an optional
  stacktrace; \<open>ev_extra\<close> holds whatever other attributes a collaborator has set (the
  transaction, for one).
\<close>

record sentry_event =
  ev_fingerprint :: "string list option"
  ev_message :: "string option"
  ev_stacktrace :: "stackframe list option"
  ev_exception :: "exception_descr option"
  ev_extra :: "(string \<times> string) list"

record breadcrumb =
  bc_timestamp :: nat
  bc_category :: string
  bc_message :: string

section \<open>The Node adapter: capture bridge\<close>

text \<open>What the slot \<^verbatim>\<open>captured: any\<close> holds when it is not \<^verbatim>\<open>undefined\<close>.\<close>

datatype artifact = EventA sentry_event | CrumbA breadcrumb

text \<open>
  The fields \<^verbatim>\<open>capturing\<close> and \<^verbatim>\<open>captured\<close> of \<^verbatim>\<open>SentryNode\<close>, the DSN of its client,
  and the calls the adapter has made so far: \<^verbatim>\<open>this.client.send\<close>,
  \<^verbatim>\<open>this.client.captureBreadcrumb\<close>, the engine's original \<^verbatim>\<open>captureBreadcrumb\<close>
  (\<^verbatim>\<open>captureRavenBreadcrumb\<close>) and the engine's original \<^verbatim>\<open>send\<close> (\<^verbatim>\<open>sendRavenEvent\<close>).
\<close>

record node_adapter =
  capturing :: bool
  captured :: "artifact option"
  client_dsn :: "string option"
  client_send_calls :: "sentry_event list"
  client_breadcrumb_calls :: "breadcrumb list"
  raven_breadcrumb_calls :: "breadcrumb list"
  raven_send_calls :: "sentry_event list"

text \<open>A freshly constructed adapter: \<^verbatim>\<open>capturing = false\<close>, \<^verbatim>\<open>captured\<close> undefined.\<close>

definition new_SentryNode :: "string option \<Rightarrow> node_adapter" where
  "new_SentryNode d =
     \<lparr>capturing = False, captured = None, client_dsn = d, client_send_calls = [],
      client_breadcrumb_calls = [], raven_breadcrumb_calls = [], raven_send_calls = []\<rparr>"

text \<open>\<^verbatim>\<open>interceptRavenSend\<close>, installed as \<^verbatim>\<open>Raven.send\<close>.\<close>

definition interceptRavenSend :: "sentry_event \<Rightarrow> node_adapter \<Rightarrow> node_adapter" where
  "interceptRavenSend event s =
     (if capturing s then s\<lparr>captured := Some (EventA event)\<rparr>
      else s\<lparr>client_send_calls := client_send_calls s @ [event]\<rparr>)"

text \<open>\<^verbatim>\<open>interceptRavenBreadcrumb\<close>, installed as \<^verbatim>\<open>Raven.captureBreadcrumb\<close>.\<close>

definition interceptRavenBreadcrumb :: "breadcrumb \<Rightarrow> node_adapter \<Rightarrow> node_adapter" where
  "interceptRavenBreadcrumb crumb s =
     (if capturing s then
        (s\<lparr>raven_breadcrumb_calls := raven_breadcrumb_calls s @ [crumb]\<rparr>)
          \<lparr>captured := Some (CrumbA crumb)\<rparr>
      else s\<lparr>client_breadcrumb_calls := client_breadcrumb_calls s @ [crumb]\<rparr>)"

text \<open>
  The callback handed to \<^verbatim>\<open>capture\<close> calls into the engine. What the adapter sees of
  it is the sequence of hook firings it causes, in order, and whether it returns or
  throws: a callback is the list of these steps, and \<^verbatim>\<open>Throw\<close> ends it. A callback
  does not call \<^verbatim>\<open>capture\<close> again: the bridge is not re-entrant, and the spec makes
  that a precondition on its callers. The calls into the Client and into the engine's
  original \<^verbatim>\<open>captureBreadcrumb\<close> return without an exception.
\<close>

datatype hook_step = FireSend sentry_event | FireBreadcrumb breadcrumb | Throw error

fun run_callback :: "hook_step list \<Rightarrow> node_adapter \<Rightarrow> error option \<times> node_adapter" where
  "run_callback [] s = (None, s)"
| "run_callback (FireSend e # rest) s = run_callback rest (interceptRavenSend e s)"
| "run_callback (FireBreadcrumb c # rest) s = run_callback rest (interceptRavenBreadcrumb c s)"
| "run_callback (Throw x # rest) s = (Some x, s)"

text \<open>
  \<^verbatim>\<open>capture\<close>. An exception of the callback leaves the function at the call
  \<^verbatim>\<open>callback()\<close>: the statements after it do not run.
\<close>

definition capture :: "hook_step list \<Rightarrow> node_adapter \<Rightarrow> (error + artifact) \<times> node_adapter" where
  "capture callback s =
     (let s1 = s\<lparr>captured := None\<rparr>;
          s2 = s1\<lparr>capturing := True\<rparr>
      in case run_callback callback s2 of
           (Some x, s3) \<Rightarrow> (Inl x, s3)
         | (None, s3) \<Rightarrow>
             (let c = captured s3;
                  s4 = s3\<lparr>captured := None\<rparr>;
                  s5 = s4\<lparr>capturing := False\<rparr>
              in case c of
                   None \<Rightarrow> (Inl (Error ''Could not capture.''), s5)
                 | Some a \<Rightarrow> (Inr a, s5)))"

text \<open>
  \<^verbatim>\<open>captureBreadcrumb\<close>: after \<^verbatim>\<open>install\<close>, \<^verbatim>\<open>Raven.captureBreadcrumb\<close> is the
  breadcrumb hook itself, so the callback is one firing of it.
\<close>

definition captureBreadcrumb :: "breadcrumb \<Rightarrow> node_adapter \<Rightarrow> (error + artifact) \<times> node_adapter" where
  "captureBreadcrumb crumb s = capture [FireBreadcrumb crumb] s"

text \<open>
  \<^verbatim>\<open>send\<close>: the engine's original send primitive is called with the event and an
  error-first callback. \<open>sendRavenEvent e\<close> is the value the engine hands to that
  callback, \<open>None\<close> when it never calls back. The function reads no DSN.
\<close>

definition send :: "(sentry_event \<Rightarrow> jsval option) \<Rightarrow> sentry_event \<Rightarrow> node_adapter
    \<Rightarrow> unit promise \<times> node_adapter" where
  "send sendRavenEvent event s =
     (case sendRavenEvent event of
        None \<Rightarrow> Pending
      | Some err \<Rightarrow> if truthy err then Rejected (Thrown err) else Resolved (),
      s\<lparr>raven_send_calls := raven_send_calls s @ [event]\<rparr>)"

text \<open>
  The artifacts a callback fires, in order, the exception it throws, and whether it
  returns.
\<close>

fun fired :: "hook_step list \<Rightarrow> artifact list" where
  "fired [] = []"
| "fired (FireSend e # rest) = EventA e # fired rest"
| "fired (FireBreadcrumb c # rest) = CrumbA c # fired rest"
| "fired (Throw x # rest) = []"

fun thrown :: "hook_step list \<Rightarrow> error option" where
  "thrown [] = None"
| "thrown (Throw x # rest) = Some x"
| "thrown (h # rest) = thrown rest"

definition returns :: "hook_step list \<Rightarrow> bool" where
  "returns callback = (thrown callback = None)"

section \<open>The browser backend: event normaliser\<close>

text \<open>
  Modelled from the spec: the shape predicates \<^verbatim>\<open>isErrorEvent\<close>, \<^verbatim>\<open>isDOMError\<close>,
  \<^verbatim>\<open>isDOMException\<close>, \<^verbatim>\<open>isError\<close> and \<^verbatim>\<open>isPlainObject\<close> are imported from
  \<^verbatim>\<open>@sentry/utils/is\<close>, which is not among the sources. The spec's five shapes are
  disjoint (wrapped browser error event, legacy DOM error type, standard error object,
  plain data object, anything else), so each predicate tests the class of the object;
  no primitive has any of the shapes.
\<close>

fun isErrorEvent :: "jsval \<Rightarrow> bool" where
  "isErrorEvent (JObj c ps) = (c = ErrorEventC)"
| "isErrorEvent v = False"

fun isDOMError :: "jsval \<Rightarrow> bool" where
  "isDOMError (JObj c ps) = (c = DOMErrorC)"
| "isDOMError v = False"

fun isDOMException :: "jsval \<Rightarrow> bool" where
  "isDOMException (JObj c ps) = (c = DOMExceptionC)"
| "isDOMException v = False"

fun isError :: "jsval \<Rightarrow> bool" where
  "isError (JObj c ps) = (c = ErrorC)"
| "isError v = False"

fun isPlainObject :: "jsval \<Rightarrow> bool" where
  "isPlainObject (JObj c ps) = (c = ObjectC)"
| "isPlainObject v = False"

text \<open>
  The collaborators of the normaliser, none of them among the sources, taken as
  parameters: \<^verbatim>\<open>computeStackTrace\<close> of \<^verbatim>\<open>./tracekit\<close> (the black-box stack
  computation), \<^verbatim>\<open>eventFromStacktrace\<close>, \<^verbatim>\<open>prepareFramesForEvent\<close> and
  \<^verbatim>\<open>getEventOptionsFromPlainObject\<close> of \<^verbatim>\<open>./parsers\<close>, the \<^verbatim>\<open>toString\<close> method that the
  string coercion of an object calls, and the runtime, which attaches a \<^verbatim>\<open>stack\<close>
  property to an \<^verbatim>\<open>Error\<close> when it is constructed: \<open>errorStack env f m\<close> is the value
  of that property for the \<^verbatim>\<open>new Error(m)\<close> that stands in the function \<open>f\<close> of the
  backend (\<^verbatim>\<open>undefined\<close> on a runtime that attaches none). Each collaborator is a total
  function: one that throws is outside this model.
\<close>

record event_options =
  eo_message :: string
  eo_fingerprint :: "string list"

record collaborators =
  computeStackTrace :: "jsval \<Rightarrow> tk_stacktrace"
  eventFromStacktrace :: "tk_stacktrace \<Rightarrow> sentry_event"
  prepareFramesForEvent :: "tk_frame list \<Rightarrow> stackframe list"
  getEventOptionsFromPlainObject :: "jsval \<Rightarrow> event_options"
  objectToString :: "jsclass \<Rightarrow> (string \<times> jsval) list \<Rightarrow> string"
  errorStack :: "string \<Rightarrow> string \<Rightarrow> jsval"

text \<open>\<^verbatim>\<open>String(v)\<close>, and the coercion of a value inside a template literal.\<close>

fun js_String :: "collaborators \<Rightarrow> jsval \<Rightarrow> string" where
  "js_String env JUndefined = ''undefined''"
| "js_String env JNull = ''null''"
| "js_String env (JBool b) = (if b then ''true'' else ''false'')"
| "js_String env (JNum t r) = r"
| "js_String env (JStr s) = s"
| "js_String env (JObj c ps) = objectToString env c ps"

text \<open>
  \<^verbatim>\<open>new Error(options.message)\<close> in \<^verbatim>\<open>eventFromException\<close>, and the synthetic error of
  \<^verbatim>\<open>eventFromMessage\<close>, which is thrown, caught, and then has its name overwritten
  with \<^verbatim>\<open>null\<close>. Both carry the stack that the runtime attached when they were
  constructed.
\<close>

definition new_Error :: "collaborators \<Rightarrow> string \<Rightarrow> jsval" where
  "new_Error env m =
     JObj ErrorC [(''name'', JStr ''Error''), (''message'', JStr m),
                  (''stack'', errorStack env ''eventFromException'' m)]"

definition syntheticException :: "collaborators \<Rightarrow> string \<Rightarrow> jsval" where
  "syntheticException env m =
     JObj ErrorC [(''name'', JNull), (''message'', JStr m),
                  (''stack'', errorStack env ''eventFromMessage'' m)]"

text \<open>
  \<^verbatim>\<open>eventFromMessage\<close>. It is an \<^verbatim>\<open>async\<close> function that throws nowhere: the value
  here is the one its promise resolves with.
\<close>

definition eventFromMessage :: "collaborators \<Rightarrow> jsval \<Rightarrow> sentry_event" where
  "eventFromMessage env message0 =
     (let message = js_String env message0;
          stacktrace = computeStackTrace env (syntheticException env message);
          frames = prepareFramesForEvent env (tk_stack stacktrace)
      in \<lparr>ev_fingerprint = Some [message], ev_message = Some message,
          ev_stacktrace = Some frames, ev_exception = None, ev_extra = []\<rparr>)"

text \<open>
  The tail of \<^verbatim>\<open>eventFromException\<close> (from \<^verbatim>\<open>eventFromStacktrace(computeStackTrace(exception))\<close>
  on): the event of the collaborators, with \<^verbatim>\<open>exception\<close> replaced by a copy of its
  descriptor that carries the mechanism. Spreading an absent descriptor
  (\<^verbatim>\<open>...undefined\<close>) copies nothing, which \<open>descr_or_empty\<close> says.
\<close>

definition descr_or_empty :: "sentry_event \<Rightarrow> exception_descr" where
  "descr_or_empty event = (case ev_exception event of None \<Rightarrow> empty_descr | Some d \<Rightarrow> d)"

definition exception_path :: "collaborators \<Rightarrow> jsval \<Rightarrow> sentry_event" where
  "exception_path env exception =
     (let event = eventFromStacktrace env (computeStackTrace env exception)
      in event\<lparr>ev_exception :=
           Some ((descr_or_empty event)
                   \<lparr>exc_mechanism := Some \<lparr>handled = True, mech_type = ''generic''\<rparr>\<rparr>)\<rparr>)"

text \<open>The message that the branch for \<^verbatim>\<open>DOMError\<close> and \<^verbatim>\<open>DOMException\<close> builds.\<close>

definition dom_message :: "collaborators \<Rightarrow> jsval \<Rightarrow> jsval" where
  "dom_message env exception =
     (let name = (if truthy (get_prop exception ''name'') then get_prop exception ''name''
                  else if isDOMError exception then JStr ''DOMError''
                  else JStr ''DOMException'')
      in if truthy (get_prop exception ''message'')
         then JStr (js_String env name @ '': '' @ js_String env (get_prop exception ''message''))
         else name)"

text \<open>\<^verbatim>\<open>eventFromException\<close>: the chain of tests in the order of the source.\<close>

definition eventFromException :: "collaborators \<Rightarrow> jsval \<Rightarrow> sentry_event" where
  "eventFromException env exception =
     (if isErrorEvent exception \<and> truthy (get_prop exception ''error'')
      then exception_path env (get_prop exception ''error'')
      else if isDOMError exception \<or> isDOMException exception
      then eventFromMessage env (dom_message env exception)
      else if isError exception
      then exception_path env exception
      else if isPlainObject exception
      then exception_path env
             (new_Error env (eo_message (getEventOptionsFromPlainObject env exception)))
      else eventFromMessage env exception)"

section \<open>The browser backend: transport dispatch\<close>

text \<open>
  Modelled from the spec: the class \<^verbatim>\<open>DSN\<close> of \<^verbatim>\<open>@sentry/core\<close> is not among the
  sources. The DSN is externally validated input, so \<^verbatim>\<open>new DSN(str)\<close> does not fail,
  and the parsed DSN is known by the string it was built from.
\<close>

datatype dsn = DSN string

text \<open>
  Modelled from the spec: \<^verbatim>\<open>TransportOptions\<close>, a type of \<^verbatim>\<open>@sentry/core\<close>, is the
  resolved DSN plus transport-specific fields. The object \<^verbatim>\<open>{ dsn }\<close> has the DSN and
  no other field.
\<close>

record transport_options =
  to_dsn :: dsn
  to_fields :: "(string \<times> string) list"

definition dsn_only :: "dsn \<Rightarrow> transport_options" where
  "dsn_only d = \<lparr>to_dsn = d, to_fields = []\<rparr>"

text \<open>
  A constructed transport: which class was instantiated (a caller's own class is known
  by its name) and the options its constructor received.
\<close>

datatype transport =
  CustomTransport string transport_options
| FetchTransport transport_options
| XHRTransport transport_options

record browser_options =
  opt_dsn :: "string option"
  opt_transport :: "string option"
  opt_transportOptions :: "transport_options option"

record sentry_response =
  resp_status :: string
  resp_code :: nat

text \<open>What \<^verbatim>\<open>sendEvent\<close> does to the outside, in order.\<close>

datatype effect = Constructed transport | SendCalled transport sentry_event

text \<open>
  \<^verbatim>\<open>sendEvent\<close>. \<open>transport_send\<close> is the \<^verbatim>\<open>send\<close> method of the transports and
  \<open>supportsFetch\<close> the answer of \<^verbatim>\<open>supportsFetch()\<close>, both collaborators. A \<^verbatim>\<open>throw\<close> in
  an \<^verbatim>\<open>async\<close> function rejects its promise. The DSN test \<^verbatim>\<open>!this.options.dsn\<close> holds
  for an absent DSN and for the empty string.
\<close>

definition sendEvent :: "(transport \<Rightarrow> sentry_event \<Rightarrow> sentry_response promise) \<Rightarrow> bool
    \<Rightarrow> browser_options \<Rightarrow> sentry_event \<Rightarrow> sentry_response promise \<times> effect list" where
  "sendEvent transport_send supportsFetch options event =
     (case opt_dsn options of
        None \<Rightarrow> (Rejected (SentryError ''Cannot sendEvent without a valid DSN''), [])
      | Some str \<Rightarrow>
          if str = [] then (Rejected (SentryError ''Cannot sendEvent without a valid DSN''), [])
          else
            (let dsn = DSN str;
                 transportOptions =
                   (case opt_transportOptions options of
                      Some given \<Rightarrow> given
                    | None \<Rightarrow> dsn_only dsn);
                 transport =
                   (case opt_transport options of
                      Some ctor \<Rightarrow> CustomTransport ctor (dsn_only dsn)
                    | None \<Rightarrow>
                        if supportsFetch then FetchTransport transportOptions
                        else XHRTransport transportOptions)
             in (transport_send transport event,
                 [Constructed transport, SendCalled transport event])))"

text \<open>The class of a constructed transport and the options it was given.\<close>

datatype transport_kind = CustomK string | FetchK | XHRK

fun kind_of :: "transport \<Rightarrow> transport_kind" where
  "kind_of (CustomTransport ctor opts) = CustomK ctor"
| "kind_of (FetchTransport opts) = FetchK"
| "kind_of (XHRTransport opts) = XHRK"

fun options_of :: "transport \<Rightarrow> transport_options" where
  "options_of (CustomTransport ctor opts) = opts"
| "options_of (FetchTransport opts) = opts"
| "options_of (XHRTransport opts) = opts"

text \<open>The transports that a list of effects constructs.\<close>

fun constructed :: "effect list \<Rightarrow> transport list" where
  "constructed [] = []"
| "constructed (Constructed t # es) = t # constructed es"
| "constructed (SendCalled t e # es) = constructed es"

section \<open>Collaborators for evaluation\<close>

text \<open>
  Modelled from the spec: one instance of the collaborator contracts (stack computation,
  the parsers, the transport's \<^verbatim>\<open>send\<close>, the engine's send primitive), none of which is
  among the sources. It serves to evaluate the functions above on concrete inputs. The
  runtime attaches a stack to every \<^verbatim>\<open>Error\<close> it constructs; the stack computation
  finds one frame in an error that carries a \<^verbatim>\<open>stack\<close> property and none in a value
  without it; the parsers copy the frames, innermost last.
\<close>

definition example_computeStackTrace :: "jsval \<Rightarrow> tk_stacktrace" where
  "example_computeStackTrace v =
     \<lparr>tk_name = (case get_prop v ''name'' of JStr n \<Rightarrow> Some n | _ \<Rightarrow> None),
      tk_message = (case get_prop v ''message'' of JStr m \<Rightarrow> m | _ \<Rightarrow> []),
      tk_stack =
        (if truthy (get_prop v ''stack'')
         then [\<lparr>tk_url = ''app.js'', tk_func = ''main'', tk_line = 10, tk_column = 5\<rparr>]
         else [])\<rparr>"

definition example_prepareFramesForEvent :: "tk_frame list \<Rightarrow> stackframe list" where
  "example_prepareFramesForEvent stack =
     rev (map (\<lambda>f. \<lparr>sf_filename = tk_url f, sf_function = tk_func f,
                     sf_lineno = tk_line f, sf_colno = tk_column f\<rparr>) stack)"

definition example_eventFromStacktrace :: "tk_stacktrace \<Rightarrow> sentry_event" where
  "example_eventFromStacktrace st =
     \<lparr>ev_fingerprint = None, ev_message = None, ev_stacktrace = None,
      ev_exception =
        Some \<lparr>exc_type = tk_name st, exc_value = Some (tk_message st),
              exc_frames = example_prepareFramesForEvent (tk_stack st),
              exc_mechanism = None\<rparr>,
      ev_extra = []\<rparr>"

fun join_keys :: "string list \<Rightarrow> string" where
  "join_keys [] = []"
| "join_keys [k] = k"
| "join_keys (k # ks) = k @ '', '' @ join_keys ks"

definition example_getEventOptionsFromPlainObject :: "jsval \<Rightarrow> event_options" where
  "example_getEventOptionsFromPlainObject v =
     (case v of
        JObj c ps \<Rightarrow>
          \<lparr>eo_message = ''Non-Error exception captured with keys: '' @ join_keys (map fst ps),
           eo_fingerprint = map fst ps\<rparr>
      | _ \<Rightarrow> \<lparr>eo_message = [], eo_fingerprint = []\<rparr>)"

definition example_collaborators :: collaborators where
  "example_collaborators =
     \<lparr>computeStackTrace = example_computeStackTrace,
      eventFromStacktrace = example_eventFromStacktrace,
      prepareFramesForEvent = example_prepareFramesForEvent,
      getEventOptionsFromPlainObject = example_getEventOptionsFromPlainObject,
      objectToString = (\<lambda>c ps. ''[object Object]''),
      errorStack = (\<lambda>f m. JStr (''Error: '' @ m @ '' at '' @ f @ '' (backend.js)''))\<rparr>"

definition example_transport_send :: "transport \<Rightarrow> sentry_event \<Rightarrow> sentry_response promise" where
  "example_transport_send t e = Resolved \<lparr>resp_status = ''success'', resp_code = 200\<rparr>"

definition example_event :: "string \<Rightarrow> sentry_event" where
  "example_event m =
     \<lparr>ev_fingerprint = None, ev_message = Some m, ev_stacktrace = None,
      ev_exception = None, ev_extra = []\<rparr>"

definition example_crumb :: "string \<Rightarrow> breadcrumb" where
  "example_crumb m = \<lparr>bc_timestamp = 0, bc_category = ''log'', bc_message = m\<rparr>"

section \<open>Properties of the capture bridge\<close>

subsection \<open>Running a callback while capturing\<close>

lemma run_callback_capturing:
  "capturing s \<Longrightarrow> capturing (snd (run_callback ops s))"
  by (induction ops s rule: run_callback.induct)
     (simp_all add: interceptRavenSend_def interceptRavenBreadcrumb_def)

lemma run_callback_captured:
  "capturing s \<Longrightarrow>
   captured (snd (run_callback ops s)) = (if fired ops = [] then captured s else Some (last (fired ops)))"
  by (induction ops s rule: run_callback.induct)
     (simp_all add: interceptRavenSend_def interceptRavenBreadcrumb_def)

lemma run_callback_thrown:
  "fst (run_callback ops s) = thrown ops"
  by (induction ops s rule: run_callback.induct) simp_all

lemma run_callback_client:
  "capturing s \<Longrightarrow> client_send_calls (snd (run_callback ops s)) = client_send_calls s
     \<and> client_breadcrumb_calls (snd (run_callback ops s)) = client_breadcrumb_calls s"
  by (induction ops s rule: run_callback.induct)
     (simp_all add: interceptRavenSend_def interceptRavenBreadcrumb_def)

lemma capture_result:
  "fst (capture ops s) =
     (case thrown ops of
        Some x \<Rightarrow> Inl x
      | None \<Rightarrow> if fired ops = [] then Inl (Error ''Could not capture.'')
                else Inr (last (fired ops)))"
proof -
  let ?s2 = "s\<lparr>captured := None, capturing := True\<rparr>"
  obtain r s3 where run: "run_callback ops ?s2 = (r, s3)"
    by (cases "run_callback ops ?s2")
  have slot: "captured s3 = (if fired ops = [] then None else Some (last (fired ops)))"
    using run_callback_captured [of ?s2 ops] run by simp
  have "r = thrown ops"
    using run_callback_thrown [of ops ?s2] run by simp
  then show ?thesis
    using run slot by (simp add: capture_def Let_def split: option.splits)
qed

lemma capture_state_returns:
  assumes "returns ops"
  shows "capturing (snd (capture ops s)) = False \<and> captured (snd (capture ops s)) = None"
proof -
  let ?s2 = "s\<lparr>captured := None, capturing := True\<rparr>"
  obtain r s3 where run: "run_callback ops ?s2 = (r, s3)"
    by (cases "run_callback ops ?s2")
  have "r = None"
    using run_callback_thrown [of ops ?s2] run assms by (simp add: returns_def)
  then show ?thesis
    using run by (simp add: capture_def Let_def split: option.splits)
qed

lemma capture_state_throws:
  assumes "\<not> returns ops"
  shows "capturing (snd (capture ops s)) = True \<and>
         captured (snd (capture ops s)) = (if fired ops = [] then None else Some (last (fired ops)))"
proof -
  let ?s2 = "s\<lparr>captured := None, capturing := True\<rparr>"
  obtain r s3 where run: "run_callback ops ?s2 = (r, s3)"
    by (cases "run_callback ops ?s2")
  have "r \<noteq> None"
    using run_callback_thrown [of ops ?s2] run assms by (simp add: returns_def)
  then obtain x where "r = Some x" by blast
  moreover have "capturing s3"
    using run_callback_capturing [of ?s2 ops] run by simp
  moreover have "captured s3 = (if fired ops = [] then None else Some (last (fired ops)))"
    using run_callback_captured [of ?s2 ops] run by simp
  ultimately show ?thesis
    using run by (simp add: capture_def Let_def)
qed

lemma capture_result_independent:
  "fst (capture ops s) = fst (capture ops s')"
  by (simp add: capture_result)

lemma capture_logs:
  "client_send_calls (snd (capture ops s)) = client_send_calls s \<and>
   client_breadcrumb_calls (snd (capture ops s)) = client_breadcrumb_calls s"
proof -
  let ?s2 = "s\<lparr>captured := None, capturing := True\<rparr>"
  obtain r s3 where run: "run_callback ops ?s2 = (r, s3)"
    by (cases "run_callback ops ?s2")
  have "client_send_calls s3 = client_send_calls s \<and>
        client_breadcrumb_calls s3 = client_breadcrumb_calls s"
    using run_callback_client [of ?s2 ops] run by simp
  then show ?thesis
    using run by (simp add: capture_def Let_def split: option.splits)
qed

text \<open>
  \<^verbatim>\<open>captureBreadcrumb\<close> hands the breadcrumb to the engine's original mechanism and
  returns it.
\<close>

lemma captureBreadcrumb_returns:
  "fst (captureBreadcrumb crumb s) = Inr (CrumbA crumb) \<and>
   raven_breadcrumb_calls (snd (captureBreadcrumb crumb s)) = raven_breadcrumb_calls s @ [crumb]"
  by (simp add: captureBreadcrumb_def capture_def interceptRavenBreadcrumb_def)

subsection \<open>The claims on the capture bridge\<close>




text \<open>
  C3. A callback that returns without firing a hook leaves the slot empty, and
  \<^verbatim>\<open>capture\<close> throws \<^verbatim>\<open>Error('Could not capture.')\<close> to its caller instead of returning
  a value; the capture state is reset before the throw.
\<close>

theorem capture_without_firing_fails:
  "returns ops \<Longrightarrow> fired ops = [] \<Longrightarrow>
     fst (capture ops s) = Inl (Error ''Could not capture.'') \<and>
     capturing (snd (capture ops s)) = False \<and> captured (snd (capture ops s)) = None"
  using capture_state_returns [of ops s]
  by (simp add: capture_result returns_def)

theorem capture_without_firing_fails_witness:
  "returns [] \<and> fired [] = [] \<and>
   fst (capture [] ((new_SentryNode None)\<lparr>captured := Some (CrumbA (example_crumb ''stale''))\<rparr>))
     = Inl (Error ''Could not capture.'')"
  using capture_without_firing_fails
          [of "[]" "(new_SentryNode None)\<lparr>captured := Some (CrumbA (example_crumb ''stale''))\<rparr>"]
  by (simp add: returns_def)

text \<open>
  C4. The send hook stores the event in the slot and forwards nothing while
  \<^verbatim>\<open>capturing\<close>, and otherwise calls the Client's \<^verbatim>\<open>send\<close> with it and leaves the slot
  alone. The breadcrumb hook, while \<^verbatim>\<open>capturing\<close>, calls the engine's original
  \<^verbatim>\<open>captureBreadcrumb\<close> and stores the breadcrumb in the slot without calling the
  Client; otherwise it calls the Client's \<^verbatim>\<open>captureBreadcrumb\<close>, and neither the slot
  nor the engine's record changes.
\<close>

theorem hook_routing:
  "(capturing s \<longrightarrow>
      captured (interceptRavenSend e s) = Some (EventA e) \<and>
      client_send_calls (interceptRavenSend e s) = client_send_calls s) \<and>
   (\<not> capturing s \<longrightarrow>
      client_send_calls (interceptRavenSend e s) = client_send_calls s @ [e] \<and>
      captured (interceptRavenSend e s) = captured s) \<and>
   (capturing s \<longrightarrow>
      raven_breadcrumb_calls (interceptRavenBreadcrumb c s) = raven_breadcrumb_calls s @ [c] \<and>
      captured (interceptRavenBreadcrumb c s) = Some (CrumbA c) \<and>
      client_breadcrumb_calls (interceptRavenBreadcrumb c s) = client_breadcrumb_calls s) \<and>
   (\<not> capturing s \<longrightarrow>
      client_breadcrumb_calls (interceptRavenBreadcrumb c s) = client_breadcrumb_calls s @ [c] \<and>
      captured (interceptRavenBreadcrumb c s) = captured s \<and>
      raven_breadcrumb_calls (interceptRavenBreadcrumb c s) = raven_breadcrumb_calls s)"
  by (simp add: interceptRavenSend_def interceptRavenBreadcrumb_def)

theorem hook_routing_witness:
  "capturing ((new_SentryNode None)\<lparr>capturing := True\<rparr>) \<and>
   captured (interceptRavenSend (example_event ''e'') ((new_SentryNode None)\<lparr>capturing := True\<rparr>))
     = Some (EventA (example_event ''e'')) \<and>
   client_send_calls
     (interceptRavenSend (example_event ''e'') ((new_SentryNode None)\<lparr>capturing := True\<rparr>)) = [] \<and>
   raven_breadcrumb_calls
     (interceptRavenBreadcrumb (example_crumb ''c'') ((new_SentryNode None)\<lparr>capturing := True\<rparr>))
     = [example_crumb ''c''] \<and>
   \<not> capturing (new_SentryNode None) \<and>
   client_send_calls (interceptRavenSend (example_event ''e'') (new_SentryNode None))
     = [example_event ''e''] \<and>
   captured (interceptRavenSend (example_event ''e'') (new_SentryNode None)) = None \<and>
   client_breadcrumb_calls (interceptRavenBreadcrumb (example_crumb ''c'') (new_SentryNode None))
     = [example_crumb ''c''] \<and>
   captured (interceptRavenBreadcrumb (example_crumb ''c'') (new_SentryNode None)) = None \<and>
   raven_breadcrumb_calls (interceptRavenBreadcrumb (example_crumb ''c'') (new_SentryNode None)) = []"
  using hook_routing [of "(new_SentryNode None)\<lparr>capturing := True\<rparr>"
                         "example_event ''e''" "example_crumb ''c''"]
        hook_routing [of "new_SentryNode None" "example_event ''e''" "example_crumb ''c''"]
  by (simp add: new_SentryNode_def)

text \<open>
  C10. When the callback returns after more than one hook firing, \<^verbatim>\<open>capture\<close> returns
  the artifact of the last firing and no error; the earlier artifacts are gone, and
  nothing was forwarded to the Client on the way.
\<close>

theorem capture_returns_last_firing:
  "returns ops \<Longrightarrow> 1 < length (fired ops) \<Longrightarrow>
     fst (capture ops s) = Inr (last (fired ops)) \<and>
     captured (snd (capture ops s)) = None \<and>
     client_send_calls (snd (capture ops s)) = client_send_calls s \<and>
     client_breadcrumb_calls (snd (capture ops s)) = client_breadcrumb_calls s"
proof -
  assume ret: "returns ops" and many: "1 < length (fired ops)"
  from many have "fired ops \<noteq> []" by auto
  with ret have "fst (capture ops s) = Inr (last (fired ops))"
    by (simp add: capture_result returns_def)
  moreover have "captured (snd (capture ops s)) = None"
    using capture_state_returns [OF ret, of s] by simp
  ultimately show ?thesis
    using capture_logs [of ops s] by simp
qed

theorem capture_returns_last_firing_witness:
  "returns [FireSend (example_event ''one''), FireBreadcrumb (example_crumb ''two''),
            FireSend (example_event ''three'')] \<and>
   1 < length (fired [FireSend (example_event ''one''), FireBreadcrumb (example_crumb ''two''),
                      FireSend (example_event ''three'')]) \<and>
   fst (capture [FireSend (example_event ''one''), FireBreadcrumb (example_crumb ''two''),
                 FireSend (example_event ''three'')] (new_SentryNode None))
     = Inr (EventA (example_event ''three''))"
  using capture_returns_last_firing
          [of "[FireSend (example_event ''one''), FireBreadcrumb (example_crumb ''two''),
                FireSend (example_event ''three'')]" "new_SentryNode None"]
  by (simp add: returns_def)

section \<open>Properties of the event normaliser\<close>

lemma eventFromMessage_record:
  "eventFromMessage env v =
     \<lparr>ev_fingerprint = Some [(js_String env v)],
      ev_message = Some (js_String env v),
      ev_stacktrace =
        Some (prepareFramesForEvent env
                (tk_stack (computeStackTrace env
                   (JObj ErrorC [(''name'', JNull), (''message'', JStr (js_String env v)),
                                 (''stack'', errorStack env ''eventFromMessage'' (js_String env v))])))),
      ev_exception = None,
      ev_extra = []\<rparr>"
  by (simp add: eventFromMessage_def Let_def syntheticException_def)

lemma exception_path_record:
  "exception_path env x =
     (eventFromStacktrace env (computeStackTrace env x))
       \<lparr>ev_exception :=
          Some ((case ev_exception (eventFromStacktrace env (computeStackTrace env x)) of
                   None \<Rightarrow> \<lparr>exc_type = None, exc_value = None, exc_frames = [], exc_mechanism = None\<rparr>
                 | Some d \<Rightarrow> d)
                \<lparr>exc_mechanism := Some \<lparr>handled = True, mech_type = ''generic''\<rparr>\<rparr>)\<rparr>"
  by (cases "ev_exception (eventFromStacktrace env (computeStackTrace env x))")
     (simp_all add: exception_path_def Let_def descr_or_empty_def empty_descr_def)

lemma dom_not_wrapped:
  "isDOMError x \<or> isDOMException x \<Longrightarrow> \<not> isErrorEvent x"
  by (cases x) auto

lemma dom_branch:
  "isDOMError x \<or> isDOMException x \<Longrightarrow>
     eventFromException env x = eventFromMessage env (dom_message env x)"
  using dom_not_wrapped [of x] by (simp add: eventFromException_def)

lemma dom_message_string:
  "js_String env (dom_message env x) =
     (if truthy (get_prop x ''message'')
      then js_String env
             (if truthy (get_prop x ''name'') then get_prop x ''name''
              else if isDOMError x then JStr ''DOMError'' else JStr ''DOMException'')
           @ '': '' @ js_String env (get_prop x ''message'')
      else js_String env
             (if truthy (get_prop x ''name'') then get_prop x ''name''
              else if isDOMError x then JStr ''DOMError'' else JStr ''DOMException''))"
  by (simp add: dom_message_def Let_def)

lemma error_branch:
  "isError x \<Longrightarrow> eventFromException env x = exception_path env x"
  by (cases x) (simp_all add: eventFromException_def)

lemma plain_branch:
  "isPlainObject x \<Longrightarrow>
     eventFromException env x =
       exception_path env (new_Error env (eo_message (getEventOptionsFromPlainObject env x)))"
  by (cases x) (simp_all add: eventFromException_def)

lemma string_branch:
  "eventFromException env (JStr s) = eventFromMessage env (JStr s)"
  by (simp add: eventFromException_def)

text \<open>
  C2, as the code has it. A \<^verbatim>\<open>DOMError\<close> or \<^verbatim>\<open>DOMException\<close> and a string go the
  message path. For the DOM shapes the message is \<^verbatim>\<open>name: message\<close>, or the name alone
  when the object has no message, where the name is the object's own or else
  \<^verbatim>\<open>DOMError\<close> or \<^verbatim>\<open>DOMException\<close>; for a string the message is the string. The event
  has no exception descriptor; it has that message, the fingerprint made of it, and
  the stacktrace computed for the synthetic error. A plain object does not go the
  message path: it is replaced by a new \<^verbatim>\<open>Error\<close> whose message is the one that
  \<^verbatim>\<open>getEventOptionsFromPlainObject\<close> derives from the object; the event is the one that
  \<^verbatim>\<open>eventFromStacktrace\<close> builds for that error, and its exception descriptor is
  present and carries the mechanism \<^verbatim>\<open>{handled: true, type: 'generic'}\<close>.
\<close>

theorem no_stack_inputs:
  "(isDOMError x \<or> isDOMException x \<longrightarrow>
      (let name = (if truthy (get_prop x ''name'') then get_prop x ''name''
                   else if isDOMError x then JStr ''DOMError'' else JStr ''DOMException'');
           m = (if truthy (get_prop x ''message'')
                then js_String env name @ '': '' @ js_String env (get_prop x ''message'')
                else js_String env name)
       in eventFromException env x =
            \<lparr>ev_fingerprint = Some [m],
             ev_message = Some m,
             ev_stacktrace =
               Some (prepareFramesForEvent env
                       (tk_stack (computeStackTrace env
                          (JObj ErrorC [(''name'', JNull), (''message'', JStr m),
                                        (''stack'', errorStack env ''eventFromMessage'' m)])))),
             ev_exception = None,
             ev_extra = []\<rparr>) \<and>
      ev_exception (eventFromException env x) = None \<and>
      ev_message (eventFromException env x) = Some (js_String env (dom_message env x)) \<and>
      ev_fingerprint (eventFromException env x) = Some [js_String env (dom_message env x)] \<and>
      ev_stacktrace (eventFromException env x) \<noteq> None) \<and>
   eventFromException env (JStr str) =
     \<lparr>ev_fingerprint = Some [str],
      ev_message = Some str,
      ev_stacktrace =
        Some (prepareFramesForEvent env
                (tk_stack (computeStackTrace env
                   (JObj ErrorC [(''name'', JNull), (''message'', JStr str),
                                 (''stack'', errorStack env ''eventFromMessage'' str)])))),
      ev_exception = None,
      ev_extra = []\<rparr> \<and>
   ev_exception (eventFromException env (JStr str)) = None \<and>
   ev_message (eventFromException env (JStr str)) = Some str \<and>
   ev_fingerprint (eventFromException env (JStr str)) = Some [str] \<and>
   ev_stacktrace (eventFromException env (JStr str)) \<noteq> None \<and>
   (isPlainObject y \<longrightarrow>
      (let m = eo_message (getEventOptionsFromPlainObject env y);
           event = eventFromStacktrace env (computeStackTrace env
                     (JObj ErrorC [(''name'', JStr ''Error''), (''message'', JStr m),
                                   (''stack'', errorStack env ''eventFromException'' m)]))
       in eventFromException env y =
            event\<lparr>ev_exception :=
              Some ((case ev_exception event of
                       None \<Rightarrow> \<lparr>exc_type = None, exc_value = None, exc_frames = [], exc_mechanism = None\<rparr>
                     | Some d \<Rightarrow> d)
                    \<lparr>exc_mechanism := Some \<lparr>handled = True, mech_type = ''generic''\<rparr>\<rparr>)\<rparr>) \<and>
      ev_exception (eventFromException env y) \<noteq> None \<and>
      map_option exc_mechanism (ev_exception (eventFromException env y)) =
        Some (Some \<lparr>handled = True, mech_type = ''generic''\<rparr>))"
proof (intro conjI impI)
  assume dom: "isDOMError x \<or> isDOMException x"
  show "let name = (if truthy (get_prop x ''name'') then get_prop x ''name''
                   else if isDOMError x then JStr ''DOMError'' else JStr ''DOMException'');
           m = (if truthy (get_prop x ''message'')
                then js_String env name @ '': '' @ js_String env (get_prop x ''message'')
                else js_String env name)
       in eventFromException env x =
            \<lparr>ev_fingerprint = Some [m],
             ev_message = Some m,
             ev_stacktrace =
               Some (prepareFramesForEvent env
                       (tk_stack (computeStackTrace env
                          (JObj ErrorC [(''name'', JNull), (''message'', JStr m),
                                        (''stack'', errorStack env ''eventFromMessage'' m)])))),
             ev_exception = None,
             ev_extra = []\<rparr>"
    by (simp add: dom_branch [OF dom] eventFromMessage_record dom_message_string Let_def)
  show "ev_exception (eventFromException env x) = None"
    and "ev_message (eventFromException env x) = Some (js_String env (dom_message env x))"
    and "ev_fingerprint (eventFromException env x) = Some [js_String env (dom_message env x)]"
    and "ev_stacktrace (eventFromException env x) \<noteq> None"
    by (simp_all add: dom_branch [OF dom] eventFromMessage_record)
next
  show "eventFromException env (JStr str) =
     \<lparr>ev_fingerprint = Some [str],
      ev_message = Some str,
      ev_stacktrace =
        Some (prepareFramesForEvent env
                (tk_stack (computeStackTrace env
                   (JObj ErrorC [(''name'', JNull), (''message'', JStr str),
                                 (''stack'', errorStack env ''eventFromMessage'' str)])))),
      ev_exception = None,
      ev_extra = []\<rparr>"
    by (simp add: string_branch eventFromMessage_record)
  show "ev_exception (eventFromException env (JStr str)) = None"
    and "ev_message (eventFromException env (JStr str)) = Some str"
    and "ev_fingerprint (eventFromException env (JStr str)) = Some [str]"
    and "ev_stacktrace (eventFromException env (JStr str)) \<noteq> None"
    by (simp_all add: string_branch eventFromMessage_record)
next
  assume plain: "isPlainObject y"
  show "let m = eo_message (getEventOptionsFromPlainObject env y);
           event = eventFromStacktrace env (computeStackTrace env
                     (JObj ErrorC [(''name'', JStr ''Error''), (''message'', JStr m),
                                   (''stack'', errorStack env ''eventFromException'' m)]))
       in eventFromException env y =
            event\<lparr>ev_exception :=
              Some ((case ev_exception event of
                       None \<Rightarrow> \<lparr>exc_type = None, exc_value = None, exc_frames = [], exc_mechanism = None\<rparr>
                     | Some d \<Rightarrow> d)
                    \<lparr>exc_mechanism := Some \<lparr>handled = True, mech_type = ''generic''\<rparr>\<rparr>)\<rparr>"
    by (simp add: plain_branch [OF plain] exception_path_record new_Error_def Let_def)
  show "ev_exception (eventFromException env y) \<noteq> None"
    and "map_option exc_mechanism (ev_exception (eventFromException env y)) =
        Some (Some \<lparr>handled = True, mech_type = ''generic''\<rparr>)"
    by (simp_all add: plain_branch [OF plain] exception_path_record)
qed

theorem no_stack_inputs_witness:
  "isDOMException (JObj DOMExceptionC [(''name'', JStr ''SyntaxError''), (''message'', JStr ''bad'')]) \<and>
   eventFromException example_collaborators
      (JObj DOMExceptionC [(''name'', JStr ''SyntaxError''), (''message'', JStr ''bad'')]) =
     \<lparr>ev_fingerprint = Some [''SyntaxError: bad''], ev_message = Some ''SyntaxError: bad'',
      ev_stacktrace =
        Some [\<lparr>sf_filename = ''app.js'', sf_function = ''main'', sf_lineno = 10, sf_colno = 5\<rparr>],
      ev_exception = None, ev_extra = []\<rparr> \<and>
   ev_message (eventFromException example_collaborators (JStr ''oops'')) = Some ''oops'' \<and>
   ev_exception (eventFromException example_collaborators (JStr ''oops'')) = None \<and>
   isPlainObject (JObj ObjectC [(''code'', JNum True ''42''), (''reason'', JStr ''x'')]) \<and>
   ev_exception (eventFromException example_collaborators
      (JObj ObjectC [(''code'', JNum True ''42''), (''reason'', JStr ''x'')])) \<noteq> None \<and>
   map_option exc_value (ev_exception (eventFromException example_collaborators
      (JObj ObjectC [(''code'', JNum True ''42''), (''reason'', JStr ''x'')]))) =
     Some (Some ''Non-Error exception captured with keys: code, reason'')"
  using no_stack_inputs
          [of "JObj DOMExceptionC [(''name'', JStr ''SyntaxError''), (''message'', JStr ''bad'')]"
              example_collaborators "''oops''"
              "JObj ObjectC [(''code'', JNum True ''42''), (''reason'', JStr ''x'')]"]
  by (simp add: Let_def example_collaborators_def example_computeStackTrace_def
        example_eventFromStacktrace_def example_prepareFramesForEvent_def
        example_getEventOptionsFromPlainObject_def)

text \<open>
  C2, as the claim states it, fails for plain objects: the event of the plain object
  \<^verbatim>\<open>{code: 42, reason: "x"}\<close> has an exception descriptor, with the frame computed for
  the new \<^verbatim>\<open>Error\<close>, and no message, fingerprint or stacktrace of its own.
\<close>

theorem plain_object_counterexample:
  "eventFromException example_collaborators
     (JObj ObjectC [(''code'', JNum True ''42''), (''reason'', JStr ''x'')]) =
   \<lparr>ev_fingerprint = None, ev_message = None, ev_stacktrace = None,
    ev_exception =
      Some \<lparr>exc_type = Some ''Error'',
            exc_value = Some ''Non-Error exception captured with keys: code, reason'',
            exc_frames =
              [\<lparr>sf_filename = ''app.js'', sf_function = ''main'', sf_lineno = 10, sf_colno = 5\<rparr>],
            exc_mechanism = Some \<lparr>handled = True, mech_type = ''generic''\<rparr>\<rparr>,
    ev_extra = []\<rparr>"
  by (simp add: eventFromException_def exception_path_def descr_or_empty_def new_Error_def
        example_collaborators_def example_computeStackTrace_def example_eventFromStacktrace_def
        example_prepareFramesForEvent_def example_getEventOptionsFromPlainObject_def)

text \<open>
  C8. \<^verbatim>\<open>eventFromMessage\<close> coerces its input to a string \<open>m\<close> and returns the event
  with fingerprint \<open>[m]\<close>, message \<open>m\<close>, no exception descriptor, no other attribute,
  and the stacktrace that \<^verbatim>\<open>prepareFramesForEvent\<close> builds from the stack computed for
  the synthetic error: an \<^verbatim>\<open>Error\<close> with message \<open>m\<close>, the stack the runtime attached
  to it in \<^verbatim>\<open>eventFromMessage\<close>, and the name \<^verbatim>\<open>null\<close>. The coercion is \<^verbatim>\<open>String\<close>: a
  string is coerced to itself, \<^verbatim>\<open>undefined\<close>, \<^verbatim>\<open>null\<close>, \<^verbatim>\<open>true\<close> and \<^verbatim>\<open>false\<close> to
  their names, a number to its rendering and an object to what its \<^verbatim>\<open>toString\<close>
  returns. So \<^verbatim>\<open>eventFromMessage("oops")\<close> has fingerprint \<^verbatim>\<open>["oops"]\<close> and message
  \<^verbatim>\<open>"oops"\<close>.
\<close>

theorem eventFromMessage_event:
  "eventFromMessage env v =
     \<lparr>ev_fingerprint = Some [(js_String env v)],
      ev_message = Some (js_String env v),
      ev_stacktrace =
        Some (prepareFramesForEvent env
                (tk_stack (computeStackTrace env
                   (JObj ErrorC [(''name'', JNull), (''message'', JStr (js_String env v)),
                                 (''stack'', errorStack env ''eventFromMessage'' (js_String env v))])))),
      ev_exception = None,
      ev_extra = []\<rparr> \<and>
   js_String env (JStr str) = str \<and>
   js_String env JUndefined = ''undefined'' \<and>
   js_String env JNull = ''null'' \<and>
   js_String env (JBool True) = ''true'' \<and>
   js_String env (JBool False) = ''false'' \<and>
   js_String env (JNum t r) = r \<and>
   js_String env (JObj c ps) = objectToString env c ps \<and>
   isError (syntheticException env (js_String env v)) \<and>
   get_prop (syntheticException env (js_String env v)) ''name'' = JNull \<and>
   get_prop (syntheticException env (js_String env v)) ''message'' = JStr (js_String env v) \<and>
   get_prop (syntheticException env (js_String env v)) ''stack'' =
     errorStack env ''eventFromMessage'' (js_String env v) \<and>
   ev_fingerprint (eventFromMessage env (JStr ''oops'')) = Some [''oops''] \<and>
   ev_message (eventFromMessage env (JStr ''oops'')) = Some ''oops'' \<and>
   ev_exception (eventFromMessage env (JStr ''oops'')) = None"
  by (simp add: eventFromMessage_record syntheticException_def)

text \<open>
  C9, as the code has it. For a standard error object the event is the one that
  \<^verbatim>\<open>eventFromStacktrace\<close> builds from the computed stack trace, every attribute
  unchanged but the exception descriptor: that is a copy of the built event's
  descriptor (of \<^verbatim>\<open>{}\<close> when it has none) with the mechanism
  \<^verbatim>\<open>{handled: true, type: 'generic'}\<close> set. The descriptor's frame list is the frame
  list \<^verbatim>\<open>eventFromStacktrace\<close> put there, unchanged, empty or not.
\<close>

theorem standard_error_event:
  "isError x \<Longrightarrow>
     (let event = eventFromStacktrace env (computeStackTrace env x)
      in eventFromException env x =
           event\<lparr>ev_exception :=
             Some ((case ev_exception event of
                      None \<Rightarrow> \<lparr>exc_type = None, exc_value = None, exc_frames = [], exc_mechanism = None\<rparr>
                    | Some d \<Rightarrow> d)
                   \<lparr>exc_mechanism := Some \<lparr>handled = True, mech_type = ''generic''\<rparr>\<rparr>)\<rparr>) \<and>
     ev_exception (eventFromException env x) =
       Some ((descr_or_empty (eventFromStacktrace env (computeStackTrace env x)))
               \<lparr>exc_mechanism := Some \<lparr>handled = True, mech_type = ''generic''\<rparr>\<rparr>) \<and>
     map_option exc_frames (ev_exception (eventFromException env x)) =
       Some (exc_frames (descr_or_empty (eventFromStacktrace env (computeStackTrace env x)))) \<and>
     map_option exc_frames (ev_exception (eventFromException env x)) =
       Some (case ev_exception (eventFromStacktrace env (computeStackTrace env x)) of
               None \<Rightarrow> [] | Some d \<Rightarrow> exc_frames d) \<and>
     map_option exc_mechanism (ev_exception (eventFromException env x)) =
       Some (Some \<lparr>handled = True, mech_type = ''generic''\<rparr>) \<and>
     ev_message (eventFromException env x) =
       ev_message (eventFromStacktrace env (computeStackTrace env x)) \<and>
     ev_fingerprint (eventFromException env x) =
       ev_fingerprint (eventFromStacktrace env (computeStackTrace env x)) \<and>
     ev_stacktrace (eventFromException env x) =
       ev_stacktrace (eventFromStacktrace env (computeStackTrace env x)) \<and>
     ev_extra (eventFromException env x) =
       ev_extra (eventFromStacktrace env (computeStackTrace env x))"
  by (simp add: error_branch exception_path_record descr_or_empty_def empty_descr_def Let_def
        split: option.splits)

theorem standard_error_event_witness:
  "isError (JObj ErrorC [(''name'', JStr ''TypeError''), (''message'', JStr ''bad''),
                         (''stack'', JStr ''TypeError: bad at main (app.js:10:5)'')]) \<and>
   eventFromException example_collaborators
        (JObj ErrorC [(''name'', JStr ''TypeError''), (''message'', JStr ''bad''),
                      (''stack'', JStr ''TypeError: bad at main (app.js:10:5)'')]) =
     \<lparr>ev_fingerprint = None, ev_message = None, ev_stacktrace = None,
      ev_exception =
        Some \<lparr>exc_type = Some ''TypeError'', exc_value = Some ''bad'',
              exc_frames =
                [\<lparr>sf_filename = ''app.js'', sf_function = ''main'', sf_lineno = 10, sf_colno = 5\<rparr>],
              exc_mechanism = Some \<lparr>handled = True, mech_type = ''generic''\<rparr>\<rparr>,
      ev_extra = []\<rparr>"
  using standard_error_event
          [of "JObj ErrorC [(''name'', JStr ''TypeError''), (''message'', JStr ''bad''),
                            (''stack'', JStr ''TypeError: bad at main (app.js:10:5)'')]"
              example_collaborators]
  by (simp add: Let_def
        example_collaborators_def example_computeStackTrace_def example_eventFromStacktrace_def
        example_prepareFramesForEvent_def)

text \<open>
  C9, as the claim states it, fails in the frame list: for an \<^verbatim>\<open>Error\<close> in which the
  stack computation finds no frame (one without a \<^verbatim>\<open>stack\<close> property), the exception
  descriptor of the event has the empty frame list.
\<close>

theorem empty_frames_counterexample:
  "isError (JObj ErrorC [(''name'', JStr ''TypeError''), (''message'', JStr ''bad'')]) \<and>
   map_option exc_frames
     (ev_exception (eventFromException example_collaborators
        (JObj ErrorC [(''name'', JStr ''TypeError''), (''message'', JStr ''bad'')]))) = Some []"
  by (simp add: eventFromException_def exception_path_def descr_or_empty_def
        example_collaborators_def example_computeStackTrace_def example_eventFromStacktrace_def
        example_prepareFramesForEvent_def)

section \<open>Properties of the transport dispatch\<close>

lemma sendEvent_without_dsn:
  "opt_dsn options = None \<or> opt_dsn options = Some [] \<Longrightarrow>
     sendEvent transport_send supportsFetch options event =
       (Rejected (SentryError ''Cannot sendEvent without a valid DSN''), [])"
  by (auto simp add: sendEvent_def)

lemma sendEvent_with_dsn:
  assumes "opt_dsn options = Some str" and "str \<noteq> []"
  shows "\<exists>t. sendEvent transport_send supportsFetch options event =
               (transport_send t event, [Constructed t, SendCalled t event]) \<and>
             t = (case opt_transport options of
                    Some ctor \<Rightarrow> CustomTransport ctor (dsn_only (DSN str))
                  | None \<Rightarrow>
                      if supportsFetch
                      then FetchTransport (case opt_transportOptions options of
                                             Some given \<Rightarrow> given
                                           | None \<Rightarrow> dsn_only (DSN str))
                      else XHRTransport (case opt_transportOptions options of
                                           Some given \<Rightarrow> given
                                         | None \<Rightarrow> dsn_only (DSN str)))"
  using assms by (simp add: sendEvent_def Let_def split: option.splits)

text \<open>
  What the two built-in transports receive: the resolved transport options, that is
  the caller's \<^verbatim>\<open>transportOptions\<close> when given and \<^verbatim>\<open>{ dsn }\<close> otherwise.
\<close>

lemma sendEvent_builtin_options:
  assumes "opt_dsn options = Some str" and "str \<noteq> []" and "opt_transport options = None"
  shows "map options_of (constructed (snd (sendEvent transport_send supportsFetch options event))) =
           [case opt_transportOptions options of
              Some given \<Rightarrow> given
            | None \<Rightarrow> dsn_only (DSN str)]"
  using assms by (simp add: sendEvent_def Let_def split: option.splits)

text \<open>
  C5, as the code has it. The browser backend's \<^verbatim>\<open>sendEvent\<close> rejects with
  \<^verbatim>\<open>SentryError('Cannot sendEvent without a valid DSN')\<close> when the DSN is absent (or the
  empty string), having constructed no transport and called no \<^verbatim>\<open>send\<close>. The Node
  adapter's \<^verbatim>\<open>send\<close> tests no DSN: whatever the client's DSN, it calls the engine's
  original send primitive with the event, and its promise follows the error-first
  callback alone.
\<close>

theorem send_without_dsn:
  "(opt_dsn options = None \<or> opt_dsn options = Some [] \<longrightarrow>
      fst (sendEvent transport_send supportsFetch options event) =
        Rejected (SentryError ''Cannot sendEvent without a valid DSN'') \<and>
      snd (sendEvent transport_send supportsFetch options event) = []) \<and>
   fst (send sendRavenEvent event (s\<lparr>client_dsn := d\<rparr>)) =
     (case sendRavenEvent event of
        None \<Rightarrow> Pending
      | Some err \<Rightarrow> if truthy err then Rejected (Thrown err) else Resolved ()) \<and>
   raven_send_calls (snd (send sendRavenEvent event (s\<lparr>client_dsn := d\<rparr>))) =
     raven_send_calls s @ [event]"
  using sendEvent_without_dsn [of options transport_send supportsFetch event]
  by (simp add: send_def)

theorem send_without_dsn_witness:
  "opt_dsn \<lparr>opt_dsn = None, opt_transport = None, opt_transportOptions = None\<rparr> = None \<and>
   sendEvent example_transport_send True
     \<lparr>opt_dsn = None, opt_transport = None, opt_transportOptions = None\<rparr> (example_event ''e'')
     = (Rejected (SentryError ''Cannot sendEvent without a valid DSN''), []) \<and>
   fst (send (\<lambda>e. Some (JStr ''ECONNREFUSED'')) (example_event ''e'') (new_SentryNode None))
     = Rejected (Thrown (JStr ''ECONNREFUSED''))"
  using send_without_dsn
          [where options = "\<lparr>opt_dsn = None, opt_transport = None, opt_transportOptions = None\<rparr>"
             and transport_send = example_transport_send and supportsFetch = True
             and event = "example_event ''e''"
             and sendRavenEvent = "\<lambda>e. Some (JStr ''ECONNREFUSED'')"
             and s = "new_SentryNode None" and d = None]
  by (simp add: prod_eq_iff new_SentryNode_def)

text \<open>
  C5, as the claim states it, fails for the Node adapter: with no DSN configured and
  an engine that reports no error, \<^verbatim>\<open>send\<close> resolves, and the engine's send primitive
  was called with the event.
\<close>

theorem node_send_counterexample:
  "client_dsn (new_SentryNode None) = None \<and>
   send (\<lambda>e. Some JNull) (example_event ''e'') (new_SentryNode None) =
     (Resolved (), (new_SentryNode None)\<lparr>raven_send_calls := [example_event ''e'']\<rparr>)"
  by (simp add: send_def new_SentryNode_def)

text \<open>
  C6. With a DSN present, \<^verbatim>\<open>sendEvent\<close> constructs exactly one transport, before
  anything else it does to the outside, and then calls that transport's \<^verbatim>\<open>send\<close>
  with the event. The class constructed is the caller's own when \<^verbatim>\<open>options.transport\<close>
  is given; otherwise it is \<^verbatim>\<open>FetchTransport\<close> when the runtime supports fetch and
  \<^verbatim>\<open>XHRTransport\<close> when it does not. Nothing else enters the choice.
\<close>

theorem transport_selection:
  "opt_dsn options = Some str \<Longrightarrow> str \<noteq> [] \<Longrightarrow>
     (\<exists>t. snd (sendEvent transport_send supportsFetch options event) =
             [Constructed t, SendCalled t event] \<and>
           fst (sendEvent transport_send supportsFetch options event) = transport_send t event \<and>
           kind_of t =
             (case opt_transport options of
                Some ctor \<Rightarrow> CustomK ctor
              | None \<Rightarrow> if supportsFetch then FetchK else XHRK))"
  using sendEvent_with_dsn [of options str transport_send supportsFetch event]
  by (auto split: option.splits)

theorem transport_selection_witness:
  "map kind_of (constructed (snd (sendEvent example_transport_send False
      \<lparr>opt_dsn = Some ''https://key@sentry.example/1'', opt_transport = None,
       opt_transportOptions = None\<rparr> (example_event ''e'')))) = [XHRK] \<and>
   map kind_of (constructed (snd (sendEvent example_transport_send True
      \<lparr>opt_dsn = Some ''https://key@sentry.example/1'', opt_transport = None,
       opt_transportOptions = None\<rparr> (example_event ''e'')))) = [FetchK] \<and>
   map kind_of (constructed (snd (sendEvent example_transport_send True
      \<lparr>opt_dsn = Some ''https://key@sentry.example/1'', opt_transport = Some ''MyTransport'',
       opt_transportOptions = None\<rparr> (example_event ''e'')))) = [CustomK ''MyTransport'']"
  using transport_selection
          [of "\<lparr>opt_dsn = Some ''https://key@sentry.example/1'', opt_transport = None,
                opt_transportOptions = None\<rparr>" "''https://key@sentry.example/1''"
              example_transport_send False "example_event ''e''"]
        transport_selection
          [of "\<lparr>opt_dsn = Some ''https://key@sentry.example/1'', opt_transport = None,
                opt_transportOptions = None\<rparr>" "''https://key@sentry.example/1''"
              example_transport_send True "example_event ''e''"]
        transport_selection
          [of "\<lparr>opt_dsn = Some ''https://key@sentry.example/1'', opt_transport = Some ''MyTransport'',
                opt_transportOptions = None\<rparr>" "''https://key@sentry.example/1''"
              example_transport_send True "example_event ''e''"]
  by auto

text \<open>
  C7 fails on the code for a caller's own transport class. With a DSN, the transport
  class \<^verbatim>\<open>MyTransport\<close> and explicit transport options that carry a proxy field,
  \<^verbatim>\<open>sendEvent\<close> constructs \<^verbatim>\<open>MyTransport\<close> with \<^verbatim>\<open>{ dsn }\<close>: the explicit options, which
  are the resolved ones, are dropped. The same options do reach \<^verbatim>\<open>FetchTransport\<close> and
  \<^verbatim>\<open>XHRTransport\<close> when no class is given.
\<close>

theorem custom_transport_options_dropped:
  "map options_of (constructed (snd (sendEvent example_transport_send True
      \<lparr>opt_dsn = Some ''https://key@sentry.example/1'', opt_transport = Some ''MyTransport'',
       opt_transportOptions =
         Some \<lparr>to_dsn = DSN ''https://key@sentry.example/1'',
               to_fields = [(''proxy'', ''http://proxy.example:8080'')]\<rparr>\<rparr>
      (example_event ''e'')))) =
     [\<lparr>to_dsn = DSN ''https://key@sentry.example/1'', to_fields = []\<rparr>] \<and>
   map options_of (constructed (snd (sendEvent example_transport_send True
      \<lparr>opt_dsn = Some ''https://key@sentry.example/1'', opt_transport = None,
       opt_transportOptions =
         Some \<lparr>to_dsn = DSN ''https://key@sentry.example/1'',
               to_fields = [(''proxy'', ''http://proxy.example:8080'')]\<rparr>\<rparr>
      (example_event ''e'')))) =
     [\<lparr>to_dsn = DSN ''https://key@sentry.example/1'',
       to_fields = [(''proxy'', ''http://proxy.example:8080'')]\<rparr>]"
  by (simp add: sendEvent_def dsn_only_def Let_def)

end
